theory Spec2Isabelle
  imports Main "HOL-Library.Word"
begin

section \<open>The LeapC wrapper: data model\<close>

text \<open>
  The development embeds \<^verbatim>\<open>Source/UltraleapTrackingCore/Private/LeapWrapper.cpp\<close>.
  Pointers are addresses, the null pointer is address 0. Calls into the LeapC library and
  into the engine are not computed: each function of the model receives the outcome of the
  library calls it makes as arguments, and records every call, allocation, release and
  shared store in a trace, in program order. \<^verbatim>\<open>UE_LOG\<close> and \<^verbatim>\<open>printf\<close> lines write to the
  engine log only and are left out.
\<close>

type_synonym addr = nat

abbreviation NULL :: addr where
  "NULL \<equiv> 0"

text \<open>The result codes of LeapC, as \<^verbatim>\<open>FLeapWrapper::ResultString\<close> lists them.\<close>

datatype eLeapRS =
    eLeapRS_Success
  | eLeapRS_UnknownError
  | eLeapRS_InvalidArgument
  | eLeapRS_InsufficientResources
  | eLeapRS_InsufficientBuffer
  | eLeapRS_Timeout
  | eLeapRS_NotConnected
  | eLeapRS_HandshakeIncomplete
  | eLeapRS_BufferSizeOverflow
  | eLeapRS_ProtocolError
  | eLeapRS_InvalidClientID
  | eLeapRS_UnexpectedClosed
  | eLeapRS_UnknownImageFrameRequest
  | eLeapRS_UnknownTrackingFrameID
  | eLeapRS_RoutineIsNotSeer
  | eLeapRS_TimestampTooEarly
  | eLeapRS_ConcurrentPoll
  | eLeapRS_NotAvailable
  | eLeapRS_NotStreaming
  | eLeapRS_CannotOpenDevice

text \<open>
  The size asked of the allocator: a byte count, or the \<^verbatim>\<open>sizeof\<close> of a type that the
  LeapC and engine headers declare (the headers are not among the sources, so these sizes
  stay symbolic).
\<close>

datatype alloc_size =
    Bytes nat
  | Sizeof_FCriticalSection
  | Sizeof_LEAP_DEVICE_INFO
  | Sizeof_LEAP_TRACKING_EVENT
  | Sizeof_LEAP_IMAGE_FRAME_DESCRIPTION

text \<open>
  The LeapC structs, with the fields the wrapper reads or writes; the remaining numeric
  fields of a struct are one opaque value. \<^verbatim>\<open>serial_length\<close> is a \<^verbatim>\<open>uint32_t\<close> and
  \<^verbatim>\<open>buffer_len\<close> a \<^verbatim>\<open>uint64_t\<close> in LeapC.
\<close>

record LEAP_DEVICE_INFO =
  serial_length :: "32 word"
  serial :: addr
  device_fields :: nat

record LEAP_TRACKING_EVENT =
  tracking_frame_id :: int
  nHands :: "32 word"
  pHands :: addr

record LEAP_IMAGE_FRAME_DESCRIPTION =
  buffer_len :: "64 word"
  pBuffer :: addr

text \<open>
  The methods of \<^verbatim>\<open>LeapWrapperCallbackInterface\<close> that the wrapper calls. The arguments of
  \<^verbatim>\<open>OnDeviceFailure\<close>, \<^verbatim>\<open>OnLog\<close>, \<^verbatim>\<open>OnConfigChange\<close> and \<^verbatim>\<open>OnConfigResponse\<close> are read
  through the event pointer at the moment of the call: the model keeps the pointer.
\<close>

datatype callback_call =
    OnConnect
  | OnConnectionLost
  | OnDeviceFound LEAP_DEVICE_INFO
  | OnDeviceLost addr
  | OnDeviceFailure addr
  | OnFrame LEAP_TRACKING_EVENT
  | OnImage nat
  | OnLog addr
  | OnPolicy "32 word"
  | OnTrackingMode "32 word"
  | OnConfigChange addr
  | OnConfigResponse addr

text \<open>
  The lambdas handed to \<^verbatim>\<open>FLeapAsync::RunShortLambdaOnGameThread\<close>, each with the
  \<^verbatim>\<open>Context\<close> pointer and what it captures: the device properties and the policy or mode
  bits by value, the device-failure, log and config events by pointer.
\<close>

datatype task =
    DeviceFoundTask addr LEAP_DEVICE_INFO
  | DeviceLostTask addr
  | DeviceFailureTask addr addr
  | LogTask addr addr
  | PolicyTask addr "32 word"
  | TrackingModeTask addr "32 word"
  | ConfigChangeTask addr addr
  | ConfigResponseTask addr addr

datatype effect =
    Malloc addr alloc_size
  | Free addr
  | Memcpy addr addr nat
  | Lock addr
  | Unlock addr
  | ContextStore addr
  | DelegateStore addr addr
  | LeapCreateConnection eLeapRS
  | LeapOpenConnection addr eLeapRS
  | LeapDestroyConnection addr
  | LeapOpenDevice nat eLeapRS
  | LeapGetDeviceInfo addr addr "32 word" eLeapRS
  | LeapCloseDevice addr
  | LeapGetFrameSize addr int
  | LeapInterpolateFrame addr int addr "64 word"
  | LeapPollConnection addr nat eLeapRS
  | Call addr callback_call
  | RunShortLambdaOnGameThread task
  | RunLambdaOnBackGroundThread addr
  | FutureWaitFor nat
  | FutureReset
  | Sleep nat

text \<open>
  The members of \<^verbatim>\<open>FLeapWrapper\<close> that the modelled functions use. They are declared in
  \<^verbatim>\<open>LeapWrapper.h\<close>, which is not among the sources; their types are read off their uses
  (\<^verbatim>\<open>InterpolatedFrameSize\<close> is compared with and assigned from a \<^verbatim>\<open>uint64_t\<close>). A pointer
  to a struct is kept together with the struct it points to; \<^verbatim>\<open>None\<close> is the null pointer.
  \<^verbatim>\<open>ProducerLambdaFuture\<close> is valid or not. The \<^verbatim>\<open>TaskRef\<close> members only hold the handles
  of the scheduled lambdas and are left out.
\<close>

record FLeapWrapper =
  bIsRunning :: bool
  bIsConnected :: bool
  CallbackDelegate :: addr
  ConnectionHandle :: addr
  DeviceHandle :: addr
  DataLock :: addr
  LatestFrame :: "(addr \<times> LEAP_TRACKING_EVENT) option"
  CurrentDeviceInfo :: "(addr \<times> LEAP_DEVICE_INFO) option"
  InterpolatedFrame :: addr
  InterpolatedFrameSize :: "64 word"
  ImageDescription :: "(addr \<times> LEAP_IMAGE_FRAME_DESCRIPTION) option"
  ProducerLambdaFuture :: bool

text \<open>
  The process: the global \<^verbatim>\<open>LeapContextAtomic\<close>, the wrapper objects by address, the
  allocator (live blocks with their sizes, the last address handed out, and whether a
  pointer that is not a live block was ever released or a null pointer dereferenced), the
  trace, and the lambdas waiting on the game thread.
\<close>

record process =
  LeapContextAtomic :: addr
  wrappers :: "addr \<Rightarrow> FLeapWrapper"
  heap :: "addr \<Rightarrow> alloc_size option"
  last_addr :: addr
  fault :: bool
  trace :: "effect list"
  GameThread :: "task list"

definition emit :: "effect \<Rightarrow> process \<Rightarrow> process" where
  "emit e p = p\<lparr>trace := trace p @ [e]\<rparr>"

definition modify :: "addr \<Rightarrow> (FLeapWrapper \<Rightarrow> FLeapWrapper) \<Rightarrow> process \<Rightarrow> process" where
  "modify this f p = p\<lparr>wrappers := (wrappers p)(this := f (wrappers p this))\<rparr>"

text \<open>
  \<^verbatim>\<open>malloc\<close> and \<^verbatim>\<open>new\<close> when they succeed: a block at an address never handed out before,
  and never null. The source checks the result of no allocation. The allocations of the
  handlers, of fixed size or of the size of a serial number, are taken to succeed;
  \<^verbatim>\<open>GetInterpolatedFrameAtTime\<close> asks for whatever size the service reported, and whether that
  allocation succeeds is an argument of its model.
\<close>

definition malloc :: "alloc_size \<Rightarrow> process \<Rightarrow> addr \<times> process" where
  "malloc n p =
     (let a = last_addr p + 1
      in (a, emit (Malloc a n) (p\<lparr>heap := (heap p)(a \<mapsto> n), last_addr := a\<rparr>)))"

text \<open>\<^verbatim>\<open>malloc\<close> when it fails: the null pointer, and the heap as it was.\<close>

definition malloc_null :: "alloc_size \<Rightarrow> process \<Rightarrow> addr \<times> process" where
  "malloc_null n p = (NULL, emit (Malloc NULL n) p)"

text \<open>
  \<^verbatim>\<open>free\<close> and \<^verbatim>\<open>delete\<close>: nothing happens on the null pointer; releasing an address that
  is not a live block is a fault.
\<close>

definition free :: "addr \<Rightarrow> process \<Rightarrow> process" where
  "free a p =
     (if a = NULL then p
      else if heap p a = None then emit (Free a) (p\<lparr>fault := True\<rparr>)
      else emit (Free a) (p\<lparr>heap := (heap p)(a := None)\<rparr>))"

section \<open>The context validity guard\<close>

definition SetLeapContextPtr :: "addr \<Rightarrow> process \<Rightarrow> process" where
  "SetLeapContextPtr InContext p = emit (ContextStore InContext) (p\<lparr>LeapContextAtomic := InContext\<rparr>)"

text \<open>
  Modelled from the spec: \<^verbatim>\<open>GetCallbackDelegate\<close> is declared in \<^verbatim>\<open>LeapWrapper.h\<close>, which is
  not among the sources; the spec reads it as the session's callback reference.
\<close>

definition GetCallbackDelegate :: "FLeapWrapper \<Rightarrow> addr" where
  "GetCallbackDelegate w = CallbackDelegate w"

definition IsLeapContextValid :: "addr \<Rightarrow> process \<Rightarrow> bool" where
  "IsLeapContextValid InContext p =
     (let CachedContext = LeapContextAtomic p
      in InContext = CachedContext \<and> GetCallbackDelegate (wrappers p InContext) \<noteq> NULL)"

section \<open>Construction and the connection session\<close>

text \<open>
  The constructor sets four members. The in-class initial values of the other members are
  declared in \<^verbatim>\<open>LeapWrapper.h\<close>, which is not among the sources: they are the parameter
  \<open>members\<close>.
\<close>

definition FLeapWrapper_ctor :: "addr \<Rightarrow> FLeapWrapper \<Rightarrow> process \<Rightarrow> process" where
  "FLeapWrapper_ctor this members p =
     (let p1 = modify this (\<lambda>_. members\<lparr>bIsRunning := False\<rparr>) p;
          p2 = modify this (\<lambda>w. w\<lparr>InterpolatedFrame := NULL\<rparr>) p1;
          p3 = modify this (\<lambda>w. w\<lparr>InterpolatedFrameSize := 0\<rparr>) p2;
          (lock, p4) = malloc Sizeof_FCriticalSection p3
      in modify this (\<lambda>w. w\<lparr>DataLock := lock\<rparr>) p4)"

definition SetCallbackDelegate :: "addr \<Rightarrow> addr \<Rightarrow> process \<Rightarrow> process" where
  "SetCallbackDelegate this InCallbackDelegate p =
     (let p1 = modify this (\<lambda>w. w\<lparr>CallbackDelegate := InCallbackDelegate\<rparr>) p;
          p2 = emit (DelegateStore this InCallbackDelegate) p1
      in SetLeapContextPtr this p2)"

text \<open>The value \<^verbatim>\<open>&ConnectionHandle\<close>: a pointer to that member of the wrapper at an address.\<close>

datatype LEAP_CONNECTION_ptr = AddressOf_ConnectionHandle addr

text \<open>
  \<open>created\<close> is what \<^verbatim>\<open>LeapCreateConnection\<close> returns and leaves in \<^verbatim>\<open>ConnectionHandle\<close>,
  \<open>opened\<close> what \<^verbatim>\<open>LeapOpenConnection\<close> returns. The lambda given to
  \<^verbatim>\<open>RunLambdaOnBackGroundThread\<close> is \<open>PumpThread\<close> below.
\<close>

definition OpenConnection ::
    "addr \<Rightarrow> addr \<Rightarrow> eLeapRS \<times> addr \<Rightarrow> eLeapRS \<Rightarrow> process \<Rightarrow> LEAP_CONNECTION_ptr \<times> process" where
  "OpenConnection this InCallbackDelegate created opened p =
     (let p1 = SetCallbackDelegate this InCallbackDelegate p;
          result = fst created;
          p2 = emit (LeapCreateConnection result)
                 (modify this (\<lambda>w. w\<lparr>ConnectionHandle := snd created\<rparr>) p1);
          p3 = (if result = eLeapRS_Success
                then (let result = opened;
                          p3 = emit (LeapOpenConnection (ConnectionHandle (wrappers p2 this)) result) p2
                      in if result = eLeapRS_Success
                         then (let p4 = modify this (\<lambda>w. w\<lparr>bIsRunning := True\<rparr>) p3;
                                   p5 = emit (RunLambdaOnBackGroundThread this) p4
                               in modify this (\<lambda>w. w\<lparr>ProducerLambdaFuture := True\<rparr>) p5)
                         else p3)
                else p2)
      in (AddressOf_ConnectionHandle this, p3))"

definition CleanupLastDevice :: "addr \<Rightarrow> process \<Rightarrow> process" where
  "CleanupLastDevice this p =
     (let p1 = (case CurrentDeviceInfo (wrappers p this) of
                  Some (a, d) \<Rightarrow> free (serial d) p
                | None \<Rightarrow> p)
      in modify this (\<lambda>w. w\<lparr>CurrentDeviceInfo := None\<rparr>) p1)"

definition CloseConnection :: "addr \<Rightarrow> process \<Rightarrow> process" where
  "CloseConnection this p =
     (if \<not> bIsConnected (wrappers p this) then p
      else
        (let p1 = modify this (\<lambda>w. w\<lparr>bIsConnected := False\<rparr>) p;
             p2 = modify this (\<lambda>w. w\<lparr>bIsRunning := False\<rparr>) p1;
             p3 = CleanupLastDevice this p2;
             p4 = emit (FutureWaitFor 3) p3;
             p5 = emit FutureReset (modify this (\<lambda>w. w\<lparr>ProducerLambdaFuture := False\<rparr>) p4);
             p6 = modify this (\<lambda>w. w\<lparr>CallbackDelegate := NULL\<rparr>) p5
         in emit (DelegateStore this NULL) p6))"

definition CloseConnectionHandle :: "addr \<Rightarrow> LEAP_CONNECTION_ptr \<Rightarrow> process \<Rightarrow> process" where
  "CloseConnectionHandle this InConnectionHandle p =
     (let p1 = modify this (\<lambda>w. w\<lparr>bIsRunning := False\<rparr>) p;
          p2 = modify this (\<lambda>w. w\<lparr>bIsConnected := False\<rparr>) p1
      in case InConnectionHandle of
           AddressOf_ConnectionHandle owner \<Rightarrow>
             emit (LeapDestroyConnection (ConnectionHandle (wrappers p2 owner))) p2)"

text \<open>
  \<open>reported\<close> is the value of the local \<^verbatim>\<open>FrameSize\<close> after \<^verbatim>\<open>LeapGetFrameSize\<close>: what the
  service wrote, or the initial 0 when it wrote nothing. \<open>allocated\<close> says whether the
  \<^verbatim>\<open>malloc\<close> of line 210, if it is reached, succeeds; its result is not checked.
\<close>

definition GetInterpolatedFrameAtTime ::
    "addr \<Rightarrow> int \<Rightarrow> 64 word \<Rightarrow> bool \<Rightarrow> process \<Rightarrow> addr \<times> process" where
  "GetInterpolatedFrameAtTime this TimeStamp reported allocated p =
     (let FrameSize = reported;
          p1 = emit (LeapGetFrameSize (ConnectionHandle (wrappers p this)) TimeStamp) p;
          p2 = (if FrameSize > 0
                then (let p2 = (if FrameSize \<noteq> InterpolatedFrameSize (wrappers p1 this)
                                then (let p2 = (if InterpolatedFrame (wrappers p1 this) \<noteq> NULL
                                                then free (InterpolatedFrame (wrappers p1 this)) p1
                                                else p1);
                                          (a, p3) = (if allocated
                                                     then malloc (Bytes (unat FrameSize)) p2
                                                     else malloc_null (Bytes (unat FrameSize)) p2)
                                      in modify this (\<lambda>w. w\<lparr>InterpolatedFrame := a\<rparr>) p3)
                                else p1);
                          p3 = modify this (\<lambda>w. w\<lparr>InterpolatedFrameSize := FrameSize\<rparr>) p2
                      in emit (LeapInterpolateFrame (ConnectionHandle (wrappers p3 this)) TimeStamp
                                 (InterpolatedFrame (wrappers p3 this))
                                 (InterpolatedFrameSize (wrappers p3 this))) p3)
                else p1)
      in (InterpolatedFrame (wrappers p2 this), p2))"

text \<open>
  \<^verbatim>\<open>new LEAP_IMAGE_FRAME_DESCRIPTION\<close> initialises no field: \<open>fresh\<close> is what the new struct
  holds. \<^verbatim>\<open>OldLength\<close> is an \<^verbatim>\<open>int\<close>; the comparison converts it back to the type of
  \<^verbatim>\<open>buffer_len\<close>, extending the sign.
\<close>

definition EnableImageStream ::
    "addr \<Rightarrow> bool \<Rightarrow> LEAP_IMAGE_FRAME_DESCRIPTION \<Rightarrow> process \<Rightarrow> process" where
  "EnableImageStream this bEnable fresh p =
     (let (a, d, p1) =
            (case ImageDescription (wrappers p this) of
               None \<Rightarrow>
                 (let (a, q) = malloc Sizeof_LEAP_IMAGE_FRAME_DESCRIPTION p;
                      d = fresh\<lparr>pBuffer := NULL\<rparr>
                  in (a, d, modify this (\<lambda>w. w\<lparr>ImageDescription := Some (a, d)\<rparr>) q))
             | Some (a, d) \<Rightarrow> (a, d, p));
          OldLength = (ucast (buffer_len d) :: 32 word)
      in if buffer_len d \<noteq> scast OldLength
         then (let p2 = (if pBuffer d \<noteq> NULL then free (pBuffer d) p1 else p1);
                   (b, p3) = malloc (Bytes (unat (buffer_len d))) p2
               in modify this (\<lambda>w. w\<lparr>ImageDescription := Some (a, d\<lparr>pBuffer := b\<rparr>)\<rparr>) p3)
         else p1)"

section \<open>The device and frame cache\<close>

definition SetDevice :: "addr \<Rightarrow> LEAP_DEVICE_INFO \<Rightarrow> process \<Rightarrow> process" where
  "SetDevice this DeviceProps p =
     (let p1 = emit (Lock (DataLock (wrappers p this))) p;
          (a, p2) = (case CurrentDeviceInfo (wrappers p1 this) of
                       Some (a, d) \<Rightarrow> (a, free (serial d) p1)
                     | None \<Rightarrow> malloc Sizeof_LEAP_DEVICE_INFO p1);
          (s, p3) = malloc (Bytes (unat (serial_length DeviceProps))) p2;
          p4 = emit (Memcpy s (serial DeviceProps) (unat (serial_length DeviceProps))) p3;
          p5 = modify this (\<lambda>w. w\<lparr>CurrentDeviceInfo := Some (a, DeviceProps\<lparr>serial := s\<rparr>)\<rparr>) p4
      in emit (Unlock (DataLock (wrappers p5 this))) p5)"

definition SetFrame :: "addr \<Rightarrow> LEAP_TRACKING_EVENT \<Rightarrow> process \<Rightarrow> process" where
  "SetFrame this Frame p =
     (let p1 = emit (Lock (DataLock (wrappers p this))) p;
          (a, p2) = (case LatestFrame (wrappers p1 this) of
                       None \<Rightarrow> malloc Sizeof_LEAP_TRACKING_EVENT p1
                     | Some (a, old) \<Rightarrow> (a, p1));
          p3 = modify this (\<lambda>w. w\<lparr>LatestFrame := Some (a, Frame)\<rparr>) p2
      in emit (Unlock (DataLock (wrappers p3 this))) p3)"

section \<open>Event handlers\<close>

definition RunShortLambdaOnGameThread_call :: "task \<Rightarrow> process \<Rightarrow> process" where
  "RunShortLambdaOnGameThread_call t p =
     emit (RunShortLambdaOnGameThread t) (p\<lparr>GameThread := GameThread p @ [t]\<rparr>)"

definition HandleConnectionEvent :: "addr \<Rightarrow> process \<Rightarrow> process" where
  "HandleConnectionEvent this p =
     (let p1 = modify this (\<lambda>w. w\<lparr>bIsConnected := True\<rparr>) p
      in if CallbackDelegate (wrappers p1 this) \<noteq> NULL
         then emit (Call (CallbackDelegate (wrappers p1 this)) OnConnect) p1
         else p1)"

definition HandleConnectionLostEvent :: "addr \<Rightarrow> process \<Rightarrow> process" where
  "HandleConnectionLostEvent this p =
     (let p1 = modify this (\<lambda>w. w\<lparr>bIsConnected := False\<rparr>) p;
          p2 = CleanupLastDevice this p1
      in if CallbackDelegate (wrappers p2 this) \<noteq> NULL
         then emit (Call (CallbackDelegate (wrappers p2 this)) OnConnectionLost) p2
         else p2)"

text \<open>
  What one call of \<^verbatim>\<open>LeapGetDeviceInfo\<close> answers: the result code, and the length and the
  numeric fields it leaves in the struct. The call does not change the \<^verbatim>\<open>serial\<close> pointer.
\<close>

type_synonym device_info_reply = "eLeapRS \<times> 32 word \<times> nat"

definition LeapGetDeviceInfo_call ::
    "addr \<Rightarrow> LEAP_DEVICE_INFO \<Rightarrow> device_info_reply \<Rightarrow> process
       \<Rightarrow> eLeapRS \<times> LEAP_DEVICE_INFO \<times> process" where
  "LeapGetDeviceInfo_call hDevice info reply p =
     (case reply of
        (rs, len, numeric) \<Rightarrow>
          (rs, info\<lparr>serial_length := len, device_fields := numeric\<rparr>,
           emit (LeapGetDeviceInfo hDevice (serial info) (serial_length info) rs) p))"

text \<open>
  Lines 406 to 424 of \<^verbatim>\<open>HandleDeviceEvent\<close>: reached when the first query did not answer
  \<^verbatim>\<open>eLeapRS_InsufficientBuffer\<close>, and when the second query succeeded.
\<close>

definition HandleDeviceEvent_deliver :: "addr \<Rightarrow> LEAP_DEVICE_INFO \<Rightarrow> process \<Rightarrow> process" where
  "HandleDeviceEvent_deliver this DeviceProperties p =
     (let p1 = SetDevice this DeviceProperties p;
          p2 = (if CallbackDelegate (wrappers p1 this) \<noteq> NULL
                then RunShortLambdaOnGameThread_call (DeviceFoundTask this DeviceProperties) p1
                else free (serial DeviceProperties) p1)
      in emit (LeapCloseDevice (DeviceHandle (wrappers p2 this))) p2)"

text \<open>
  \<open>opened\<close> is what \<^verbatim>\<open>LeapOpenDevice\<close> returns and leaves in the member \<^verbatim>\<open>DeviceHandle\<close>;
  \<open>first\<close> and \<open>second\<close> are the answers of the two \<^verbatim>\<open>LeapGetDeviceInfo\<close> calls (the second
  is only asked after \<^verbatim>\<open>eLeapRS_InsufficientBuffer\<close>).
\<close>

definition HandleDeviceEvent ::
    "addr \<Rightarrow> nat \<Rightarrow> eLeapRS \<times> addr \<Rightarrow> device_info_reply \<Rightarrow> device_info_reply
       \<Rightarrow> process \<Rightarrow> process" where
  "HandleDeviceEvent this DeviceEvent opened first second p =
     (let Result = fst opened;
          p1 = emit (LeapOpenDevice DeviceEvent Result)
                 (modify this (\<lambda>w. w\<lparr>DeviceHandle := snd opened\<rparr>) p)
      in if Result \<noteq> eLeapRS_Success then p1
         else
           (let (buf, p2) = malloc (Bytes 64) p1;
                DeviceProperties = \<lparr>serial_length = 64, serial = buf, device_fields = 0\<rparr>;
                (Result, DeviceProperties, p3) =
                   LeapGetDeviceInfo_call (DeviceHandle (wrappers p2 this)) DeviceProperties first p2
            in if Result = eLeapRS_InsufficientBuffer
               then
                 (let p4 = free (serial DeviceProperties) p3;
                      (buf, p5) = malloc (Bytes (unat (serial_length DeviceProperties))) p4;
                      DeviceProperties = DeviceProperties\<lparr>serial := buf\<rparr>;
                      (Result, DeviceProperties, p6) =
                         LeapGetDeviceInfo_call (DeviceHandle (wrappers p5 this)) DeviceProperties second p5
                  in if Result \<noteq> eLeapRS_Success
                     then free (serial DeviceProperties) p6
                     else HandleDeviceEvent_deliver this DeviceProperties p6)
               else HandleDeviceEvent_deliver this DeviceProperties p3))"

definition HandleDeviceLostEvent :: "addr \<Rightarrow> nat \<Rightarrow> process \<Rightarrow> process" where
  "HandleDeviceLostEvent this DeviceEvent p =
     (if CallbackDelegate (wrappers p this) \<noteq> NULL
      then RunShortLambdaOnGameThread_call (DeviceLostTask this) p
      else p)"

definition HandleDeviceFailureEvent :: "addr \<Rightarrow> addr \<Rightarrow> process \<Rightarrow> process" where
  "HandleDeviceFailureEvent this DeviceFailureEvent p =
     (if CallbackDelegate (wrappers p this) \<noteq> NULL
      then RunShortLambdaOnGameThread_call (DeviceFailureTask this DeviceFailureEvent) p
      else p)"

definition HandleTrackingEvent :: "addr \<Rightarrow> LEAP_TRACKING_EVENT \<Rightarrow> process \<Rightarrow> process" where
  "HandleTrackingEvent this TrackingEvent p =
     (let p1 = SetFrame this TrackingEvent p
      in if CallbackDelegate (wrappers p1 this) \<noteq> NULL
         then emit (Call (CallbackDelegate (wrappers p1 this)) (OnFrame TrackingEvent)) p1
         else p1)"

definition HandleImageEvent :: "addr \<Rightarrow> nat \<Rightarrow> process \<Rightarrow> process" where
  "HandleImageEvent this ImageEvent p =
     (if CallbackDelegate (wrappers p this) \<noteq> NULL
      then emit (Call (CallbackDelegate (wrappers p this)) (OnImage ImageEvent)) p
      else p)"

definition HandleLogEvent :: "addr \<Rightarrow> addr \<Rightarrow> process \<Rightarrow> process" where
  "HandleLogEvent this LogEvent p =
     (if CallbackDelegate (wrappers p this) \<noteq> NULL
      then RunShortLambdaOnGameThread_call (LogTask this LogEvent) p
      else p)"

definition HandlePolicyEvent :: "addr \<Rightarrow> 32 word \<Rightarrow> process \<Rightarrow> process" where
  "HandlePolicyEvent this current_policy p =
     (if CallbackDelegate (wrappers p this) \<noteq> NULL
      then (let CurrentPolicy = current_policy
            in RunShortLambdaOnGameThread_call (PolicyTask this CurrentPolicy) p)
      else p)"

definition HandleTrackingModeEvent :: "addr \<Rightarrow> 32 word \<Rightarrow> process \<Rightarrow> process" where
  "HandleTrackingModeEvent this current_tracking_mode p =
     (if CallbackDelegate (wrappers p this) \<noteq> NULL
      then (let CurrentMode = current_tracking_mode
            in RunShortLambdaOnGameThread_call (TrackingModeTask this CurrentMode) p)
      else p)"

definition HandleConfigChangeEvent :: "addr \<Rightarrow> addr \<Rightarrow> process \<Rightarrow> process" where
  "HandleConfigChangeEvent this ConfigChangeEvent p =
     (if CallbackDelegate (wrappers p this) \<noteq> NULL
      then RunShortLambdaOnGameThread_call (ConfigChangeTask this ConfigChangeEvent) p
      else p)"

definition HandleConfigResponseEvent :: "addr \<Rightarrow> addr \<Rightarrow> process \<Rightarrow> process" where
  "HandleConfigResponseEvent this ConfigResponseEvent p =
     (if CallbackDelegate (wrappers p this) \<noteq> NULL
      then RunShortLambdaOnGameThread_call (ConfigResponseTask this ConfigResponseEvent) p
      else p)"

text \<open>
  The bodies of the lambdas, run later on the game thread. The device-found lambda releases
  the serial buffer it captured whether or not the context is still valid. The device-lost
  lambda reads through \<^verbatim>\<open>CurrentDeviceInfo\<close>: a null pointer there is a fault. The
  device-failure, log and config lambdas read their event through the captured pointer only
  now, when they run.
\<close>

fun run_task :: "task \<Rightarrow> process \<Rightarrow> process" where
  "run_task (DeviceFoundTask Context DeviceProperties) p =
     (let p1 = (if IsLeapContextValid Context p
                then emit (Call (CallbackDelegate (wrappers p Context)) (OnDeviceFound DeviceProperties)) p
                else p)
      in free (serial DeviceProperties) p1)"
| "run_task (DeviceLostTask Context) p =
     (if IsLeapContextValid Context p
      then (case CurrentDeviceInfo (wrappers p Context) of
              Some (a, d) \<Rightarrow> emit (Call (CallbackDelegate (wrappers p Context)) (OnDeviceLost (serial d))) p
            | None \<Rightarrow> p\<lparr>fault := True\<rparr>)
      else p)"
| "run_task (DeviceFailureTask Context DeviceFailureEvent) p =
     (if IsLeapContextValid Context p
      then emit (Call (CallbackDelegate (wrappers p Context)) (OnDeviceFailure DeviceFailureEvent)) p
      else p)"
| "run_task (LogTask Context LogEvent) p =
     (if IsLeapContextValid Context p
      then emit (Call (CallbackDelegate (wrappers p Context)) (OnLog LogEvent)) p
      else p)"
| "run_task (PolicyTask Context CurrentPolicy) p =
     (if IsLeapContextValid Context p
      then emit (Call (CallbackDelegate (wrappers p Context)) (OnPolicy CurrentPolicy)) p
      else p)"
| "run_task (TrackingModeTask Context CurrentMode) p =
     (if IsLeapContextValid Context p
      then emit (Call (CallbackDelegate (wrappers p Context)) (OnTrackingMode CurrentMode)) p
      else p)"
| "run_task (ConfigChangeTask Context ConfigChangeEvent) p =
     (if IsLeapContextValid Context p
      then emit (Call (CallbackDelegate (wrappers p Context)) (OnConfigChange ConfigChangeEvent)) p
      else p)"
| "run_task (ConfigResponseTask Context ConfigResponseEvent) p =
     (if IsLeapContextValid Context p
      then emit (Call (CallbackDelegate (wrappers p Context)) (OnConfigResponse ConfigResponseEvent)) p
      else p)"

text \<open>The game thread runs the waiting lambdas in the order they were handed over.\<close>

definition run_game_thread :: "process \<Rightarrow> process" where
  "run_game_thread p = fold run_task (GameThread p) (p\<lparr>GameThread := []\<rparr>)"

section \<open>The message pump\<close>

datatype LEAP_CONNECTION_MESSAGE =
    eLeapEventType_Connection
  | eLeapEventType_ConnectionLost
  | eLeapEventType_Device nat
  | eLeapEventType_DeviceLost nat
  | eLeapEventType_DeviceFailure addr
  | eLeapEventType_Tracking LEAP_TRACKING_EVENT
  | eLeapEventType_Image nat
  | eLeapEventType_LogEvent addr
  | eLeapEventType_Policy "32 word"
  | eLeapEventType_TrackingMode "32 word"
  | eLeapEventType_ConfigChange addr
  | eLeapEventType_ConfigResponse addr
  | eLeapEventType_Other nat

text \<open>
  One return of \<^verbatim>\<open>LeapPollConnection\<close>: whether another thread cleared \<^verbatim>\<open>bIsRunning\<close> while
  the poll was blocked, the result code, the message, and the answers of the LeapC calls
  that \<^verbatim>\<open>HandleDeviceEvent\<close> makes if the message is a device event.
\<close>

record poll_return =
  stop_requested :: bool
  Result :: eLeapRS
  Msg :: LEAP_CONNECTION_MESSAGE
  device_opened :: "eLeapRS \<times> addr"
  device_first :: device_info_reply
  device_second :: device_info_reply

text \<open>The \<^verbatim>\<open>switch\<close> on \<^verbatim>\<open>Msg.type\<close>.\<close>

definition dispatch :: "addr \<Rightarrow> poll_return \<Rightarrow> process \<Rightarrow> process" where
  "dispatch this r p =
     (case Msg r of
        eLeapEventType_Connection \<Rightarrow> HandleConnectionEvent this p
      | eLeapEventType_ConnectionLost \<Rightarrow> HandleConnectionLostEvent this p
      | eLeapEventType_Device device_event \<Rightarrow>
          HandleDeviceEvent this device_event (device_opened r) (device_first r) (device_second r) p
      | eLeapEventType_DeviceLost device_event \<Rightarrow> HandleDeviceLostEvent this device_event p
      | eLeapEventType_DeviceFailure device_failure_event \<Rightarrow>
          HandleDeviceFailureEvent this device_failure_event p
      | eLeapEventType_Tracking tracking_event \<Rightarrow> HandleTrackingEvent this tracking_event p
      | eLeapEventType_Image image_event \<Rightarrow> HandleImageEvent this image_event p
      | eLeapEventType_LogEvent log_event \<Rightarrow> HandleLogEvent this log_event p
      | eLeapEventType_Policy current_policy \<Rightarrow> HandlePolicyEvent this current_policy p
      | eLeapEventType_TrackingMode current_tracking_mode \<Rightarrow>
          HandleTrackingModeEvent this current_tracking_mode p
      | eLeapEventType_ConfigChange config_change_event \<Rightarrow>
          HandleConfigChangeEvent this config_change_event p
      | eLeapEventType_ConfigResponse config_response_event \<Rightarrow>
          HandleConfigResponseEvent this config_response_event p
      | eLeapEventType_Other n \<Rightarrow> p)"

text \<open>
  The pump either has left the loop, or is still inside it when the given poll returns are
  used up (it is blocked in the next poll).
\<close>

datatype pump = Exited process | Polling process

fun pump_state :: "pump \<Rightarrow> process" where
  "pump_state (Exited p) = p"
| "pump_state (Polling p) = p"

text \<open>The \<^verbatim>\<open>while (bIsRunning)\<close> loop, over the poll returns still to come.\<close>

fun pump_loop :: "addr \<Rightarrow> addr \<Rightarrow> nat \<Rightarrow> poll_return list \<Rightarrow> process \<Rightarrow> pump" where
  "pump_loop this Handle Timeout [] p =
     (if bIsRunning (wrappers p this) then Polling p else Exited p)"
| "pump_loop this Handle Timeout (r # rs) p =
     (if \<not> bIsRunning (wrappers p this) then Exited p
      else
        (let p1 = emit (LeapPollConnection Handle Timeout (Result r)) p;
             p2 = (if stop_requested r then modify this (\<lambda>w. w\<lparr>bIsRunning := False\<rparr>) p1 else p1)
         in if \<not> bIsRunning (wrappers p2 this) then Exited p2
            else if Result r \<noteq> eLeapRS_Success
            then (if \<not> bIsConnected (wrappers p2 this)
                  then pump_loop this Handle Timeout rs (emit (Sleep 100) p2)
                  else pump_loop this Handle Timeout rs p2)
            else pump_loop this Handle Timeout rs (dispatch this r p2)))"

definition ServiceMessageLoop :: "addr \<Rightarrow> poll_return list \<Rightarrow> process \<Rightarrow> pump" where
  "ServiceMessageLoop this polls p =
     (let Handle = ConnectionHandle (wrappers p this);
          Timeout = 200
      in pump_loop this Handle Timeout polls p)"

text \<open>The lambda that \<^verbatim>\<open>OpenConnection\<close> starts on the background thread.\<close>

definition PumpThread :: "addr \<Rightarrow> poll_return list \<Rightarrow> process \<Rightarrow> pump" where
  "PumpThread this polls p =
     (case ServiceMessageLoop this polls p of
        Exited q \<Rightarrow> Exited (CloseConnectionHandle this (AddressOf_ConnectionHandle this) q)
      | Polling q \<Rightarrow> Polling q)"

section \<open>Destruction\<close>

definition FLeapWrapper_dtor :: "addr \<Rightarrow> process \<Rightarrow> process" where
  "FLeapWrapper_dtor this p =
     (let p1 = free (DataLock (wrappers p this)) p;
          p2 = modify this (\<lambda>w. w\<lparr>DataLock := NULL\<rparr>) p1;
          p3 = modify this (\<lambda>w. w\<lparr>bIsRunning := False\<rparr>) p2;
          p4 = SetLeapContextPtr NULL p3;
          p5 = emit (DelegateStore this NULL) (modify this (\<lambda>w. w\<lparr>CallbackDelegate := NULL\<rparr>) p4);
          p6 = modify this (\<lambda>w. w\<lparr>LatestFrame := None\<rparr>) p5;
          p7 = modify this (\<lambda>w. w\<lparr>ConnectionHandle := NULL\<rparr>) p6;
          p8 = (if bIsConnected (wrappers p7 this) then CloseConnection this p7 else p7)
      in case ImageDescription (wrappers p8 this) of
           Some (a, d) \<Rightarrow>
             (let p9 = (if pBuffer d \<noteq> NULL then free (pBuffer d) p8 else p8)
              in free a p9)
         | None \<Rightarrow> p8)"

section \<open>Concrete sessions\<close>

text \<open>
  A wrapper at address 1000 whose members start out null and false, in a process with an
  empty heap; the same wrapper after \<^verbatim>\<open>OpenConnection\<close> succeeded with the callback sink at
  address 500; and that session after a connection event, a device event, a tracking event
  and an interpolated-frame request of 100 bytes, whose allocation succeeded.
\<close>

definition blank_wrapper :: FLeapWrapper where
  "blank_wrapper = \<lparr>bIsRunning = False, bIsConnected = False, CallbackDelegate = NULL,
     ConnectionHandle = NULL, DeviceHandle = NULL, DataLock = NULL, LatestFrame = None,
     CurrentDeviceInfo = None, InterpolatedFrame = NULL, InterpolatedFrameSize = 0,
     ImageDescription = None, ProducerLambdaFuture = False\<rparr>"

definition boot :: process where
  "boot = \<lparr>LeapContextAtomic = NULL, wrappers = (\<lambda>_. blank_wrapper), heap = (\<lambda>_. None),
     last_addr = 0, fault = False, trace = [], GameThread = []\<rparr>"

definition constructed :: process where
  "constructed = FLeapWrapper_ctor 1000 blank_wrapper boot"

definition started :: process where
  "started = snd (OpenConnection 1000 500 (eLeapRS_Success, 40) eLeapRS_Success constructed)"

definition frame1 :: LEAP_TRACKING_EVENT where
  "frame1 = \<lparr>tracking_frame_id = 1, nHands = 0, pHands = NULL\<rparr>"

definition frame2 :: LEAP_TRACKING_EVENT where
  "frame2 = \<lparr>tracking_frame_id = 2, nHands = 2, pHands = 900\<rparr>"

definition live_session :: process where
  "live_session =
     snd (GetInterpolatedFrameAtTime 1000 0 100 True
       (HandleTrackingEvent 1000 frame1
         (HandleDeviceEvent 1000 7 (eLeapRS_Success, 77) (eLeapRS_Success, 64, 5) (eLeapRS_Success, 64, 5)
           (HandleConnectionEvent 1000 started))))"

definition poll_tracking :: poll_return where
  "poll_tracking = \<lparr>stop_requested = False, Result = eLeapRS_Success,
     Msg = eLeapEventType_Tracking frame1, device_opened = (eLeapRS_Success, NULL),
     device_first = (eLeapRS_Success, 0, 0), device_second = (eLeapRS_Success, 0, 0)\<rparr>"

definition poll_timeout :: poll_return where
  "poll_timeout = \<lparr>stop_requested = False, Result = eLeapRS_Timeout,
     Msg = eLeapEventType_Other 0, device_opened = (eLeapRS_Success, NULL),
     device_first = (eLeapRS_Success, 0, 0), device_second = (eLeapRS_Success, 0, 0)\<rparr>"

definition poll_stopped :: poll_return where
  "poll_stopped = \<lparr>stop_requested = True, Result = eLeapRS_Success,
     Msg = eLeapEventType_Tracking frame2, device_opened = (eLeapRS_Success, NULL),
     device_first = (eLeapRS_Success, 0, 0), device_second = (eLeapRS_Success, 0, 0)\<rparr>"

section \<open>Measures on a process\<close>

text \<open>
  The number of allocations made so far, the byte size of the live block at an address (0
  when there is none), and the invariant of the interpolation buffer: either there is no
  buffer and the recorded size is 0, or the buffer is a live block of the recorded size.
\<close>

fun is_Malloc :: "effect \<Rightarrow> bool" where
  "is_Malloc (Malloc a n) = True"
| "is_Malloc e = False"

definition allocations :: "process \<Rightarrow> nat" where
  "allocations p = length (filter is_Malloc (trace p))"

definition block_bytes :: "process \<Rightarrow> addr \<Rightarrow> nat" where
  "block_bytes p a = (case heap p a of Some (Bytes n) \<Rightarrow> n | _ \<Rightarrow> 0)"

definition interpolation_buffer_ok :: "addr \<Rightarrow> process \<Rightarrow> bool" where
  "interpolation_buffer_ok this p =
     (InterpolatedFrame (wrappers p this) = NULL \<and> InterpolatedFrameSize (wrappers p this) = 0 \<or>
      heap p (InterpolatedFrame (wrappers p this)) =
        Some (Bytes (unat (InterpolatedFrameSize (wrappers p this)))))"

section \<open>Properties\<close>

lemmas runtime_defs = emit_def modify_def malloc_def free_def SetLeapContextPtr_def
  RunShortLambdaOnGameThread_call_def LeapGetDeviceInfo_call_def

lemma constructed_eq:
  "constructed = \<lparr>LeapContextAtomic = NULL,
       wrappers = (\<lambda>_. blank_wrapper)(1000 := blank_wrapper\<lparr>DataLock := 1\<rparr>),
       heap = [1 \<mapsto> Sizeof_FCriticalSection], last_addr = 1, fault = False,
       trace = [Malloc 1 Sizeof_FCriticalSection], GameThread = []\<rparr>"
  by (simp add: constructed_def boot_def blank_wrapper_def FLeapWrapper_ctor_def runtime_defs Let_def)

lemma started_eq:
  "started = \<lparr>LeapContextAtomic = 1000,
       wrappers = (\<lambda>_. blank_wrapper)(1000 := blank_wrapper\<lparr>bIsRunning := True, CallbackDelegate := 500,
            ConnectionHandle := 40, DataLock := 1, ProducerLambdaFuture := True\<rparr>),
       heap = [1 \<mapsto> Sizeof_FCriticalSection], last_addr = 1, fault = False,
       trace = [Malloc 1 Sizeof_FCriticalSection, DelegateStore 1000 500, ContextStore 1000,
                LeapCreateConnection eLeapRS_Success, LeapOpenConnection 40 eLeapRS_Success,
                RunLambdaOnBackGroundThread 1000],
       GameThread = []\<rparr>"
  by (simp add: started_def constructed_eq blank_wrapper_def OpenConnection_def
        SetCallbackDelegate_def runtime_defs Let_def)


subsection \<open>Device events\<close>

text \<open>
  C1. The claim asks that every execution of \<^verbatim>\<open>HandleDeviceEvent\<close> closes the device handle
  it opened and releases each temporary serial buffer once. The source does not do so on
  one path: when the device opens, the first query answers \<^verbatim>\<open>eLeapRS_InsufficientBuffer\<close>
  and the retry does not succeed, the handler releases the first and the second buffer and
  returns. What it did after \<^verbatim>\<open>LeapOpenDevice\<close> is exactly the list below: there is no
  \<^verbatim>\<open>LeapCloseDevice\<close> in it, the handle stays open.
\<close>

theorem HandleDeviceEvent_failed_retry_leaves_device_open:
  assumes "rs \<noteq> eLeapRS_Success"
  shows "trace (HandleDeviceEvent this ev (eLeapRS_Success, h) (eLeapRS_InsufficientBuffer, len, n)
                  (rs, len', n') p) =
     trace p @ [LeapOpenDevice ev eLeapRS_Success,
                Malloc (last_addr p + 1) (Bytes 64),
                LeapGetDeviceInfo h (last_addr p + 1) 64 eLeapRS_InsufficientBuffer,
                Free (last_addr p + 1),
                Malloc (last_addr p + 2) (Bytes (unat len)),
                LeapGetDeviceInfo h (last_addr p + 2) len rs,
                Free (last_addr p + 2)]"
  using assms by (simp add: HandleDeviceEvent_def runtime_defs Let_def)

theorem HandleDeviceEvent_failed_retry_witness:
  "eLeapRS_UnknownError \<noteq> eLeapRS_Success \<and>
   trace (HandleDeviceEvent 1000 7 (eLeapRS_Success, 77) (eLeapRS_InsufficientBuffer, 128, 0)
            (eLeapRS_UnknownError, 128, 0) started) =
     trace started @
     [LeapOpenDevice 7 eLeapRS_Success, Malloc 2 (Bytes 64),
      LeapGetDeviceInfo 77 2 64 eLeapRS_InsufficientBuffer, Free 2, Malloc 3 (Bytes 128),
      LeapGetDeviceInfo 77 3 128 eLeapRS_UnknownError, Free 3]"
  using HandleDeviceEvent_failed_retry_leaves_device_open
          [of eLeapRS_UnknownError 1000 7 77 128 0 128 0 started]
  by (simp add: started_eq)

text \<open>
  C2. The claim asks that a first device-info query failing with a code other than
  \<^verbatim>\<open>eLeapRS_InsufficientBuffer\<close> drops the event. The source tests the first answer for
  \<^verbatim>\<open>eLeapRS_InsufficientBuffer\<close> only: with any other code, a failure included, and a
  callback sink set, it caches the device info as the query left it and hands the
  device-found lambda to the game thread.
\<close>

theorem HandleDeviceEvent_first_reply_unchecked:
  assumes "rs \<noteq> eLeapRS_InsufficientBuffer" and "CallbackDelegate (wrappers p this) \<noteq> NULL"
  shows "let p' = HandleDeviceEvent this ev (eLeapRS_Success, h) (rs, len, n) second p;
             (a, s) = (case CurrentDeviceInfo (wrappers p this) of
                         Some (a, d) \<Rightarrow> (a, last_addr p + 2)
                       | None \<Rightarrow> (last_addr p + 2, last_addr p + 3))
         in CurrentDeviceInfo (wrappers p' this) =
              Some (a, \<lparr>serial_length = len, serial = s, device_fields = n\<rparr>) \<and>
            GameThread p' = GameThread p @
              [DeviceFoundTask this \<lparr>serial_length = len, serial = last_addr p + 1, device_fields = n\<rparr>]"
  using assms
  by (simp add: HandleDeviceEvent_def HandleDeviceEvent_deliver_def SetDevice_def runtime_defs Let_def
        split: option.split prod.split)

theorem HandleDeviceEvent_first_reply_unchecked_witness:
  "eLeapRS_UnknownError \<noteq> eLeapRS_InsufficientBuffer \<and>
   CallbackDelegate (wrappers started 1000) \<noteq> NULL \<and>
   (let p' = HandleDeviceEvent 1000 7 (eLeapRS_Success, 77) (eLeapRS_UnknownError, 64, 0)
               (eLeapRS_Success, 64, 0) started
    in CurrentDeviceInfo (wrappers p' 1000) =
         Some (3, \<lparr>serial_length = 64, serial = 4, device_fields = 0\<rparr>) \<and>
       GameThread p' = [DeviceFoundTask 1000 \<lparr>serial_length = 64, serial = 2, device_fields = 0\<rparr>])"
proof -
  have cb: "CallbackDelegate (wrappers started 1000) \<noteq> NULL"
    by (simp add: started_eq blank_wrapper_def)
  show ?thesis
    using HandleDeviceEvent_first_reply_unchecked
          [of eLeapRS_UnknownError started 1000 7 77 64 0 "(eLeapRS_Success, 64, 0)", OF _ cb] cb
    by (simp add: Let_def started_eq blank_wrapper_def)
qed

subsection \<open>Destruction\<close>

text \<open>
  C3. The claim asks that the destructor frees the interpolated frame, the cached device
  info and the cached tracking frame, and invalidates the context token before any owned
  memory is released. On the live session the source does neither: after the destructor,
  and after the game thread has run what was still waiting, the tracking frame (block 5),
  the interpolated frame (block 6) and the device-info struct (block 3) are still
  allocated; and the first thing the destructor does is release the lock (block 1), before
  it clears the context pointer. It does close the connection, which releases the cached
  serial (block 4).
\<close>

theorem FLeapWrapper_dtor_leaves_frames_allocated:
  "(let p = run_game_thread (FLeapWrapper_dtor 1000 live_session)
    in LatestFrame (wrappers live_session 1000) = Some (5, frame1) \<and>
       heap p 5 = Some Sizeof_LEAP_TRACKING_EVENT \<and>
       InterpolatedFrame (wrappers live_session 1000) = 6 \<and>
       heap p 6 = Some (Bytes 100) \<and>
       CurrentDeviceInfo (wrappers live_session 1000) =
         Some (3, \<lparr>serial_length = 64, serial = 4, device_fields = 5\<rparr>) \<and>
       heap p 3 = Some Sizeof_LEAP_DEVICE_INFO \<and>
       trace p = trace live_session @
         [Free 1, ContextStore NULL, DelegateStore 1000 NULL, Free 4, FutureWaitFor 3,
          FutureReset, DelegateStore 1000 NULL, Free 2])"
  by (simp add: live_session_def started_eq blank_wrapper_def GetInterpolatedFrameAtTime_def
        HandleTrackingEvent_def SetFrame_def HandleDeviceEvent_def HandleDeviceEvent_deliver_def
        SetDevice_def HandleConnectionEvent_def
        FLeapWrapper_dtor_def CloseConnection_def CleanupLastDevice_def
        run_game_thread_def IsLeapContextValid_def GetCallbackDelegate_def runtime_defs Let_def)

subsection \<open>Tracking events\<close>

text \<open>
  C4, as amended. For every tracking event handled, the event struct is copied into the
  session-owned frame buffer. The buffer is allocated only when no frame is cached yet,
  with the fixed size of the event struct; when a frame is cached the heap is left as it
  is, whatever the event holds. \<^verbatim>\<open>OnFrame\<close> is then called directly when the callback
  reference is not null, and nothing is handed to the game thread.
\<close>

theorem HandleTrackingEvent_effects:
  "let w = wrappers p this;
       p' = HandleTrackingEvent this ev p
   in LatestFrame (wrappers p' this) =
        Some (case LatestFrame w of None \<Rightarrow> last_addr p + 1 | Some (a, old) \<Rightarrow> a, ev) \<and>
      heap p' = (case LatestFrame w of
                   None \<Rightarrow> (heap p)(last_addr p + 1 \<mapsto> Sizeof_LEAP_TRACKING_EVENT)
                 | Some (a, old) \<Rightarrow> heap p) \<and>
      trace p' = trace p @ [Lock (DataLock w)] @
        (case LatestFrame w of
           None \<Rightarrow> [Malloc (last_addr p + 1) Sizeof_LEAP_TRACKING_EVENT]
         | Some (a, old) \<Rightarrow> []) @
        [Unlock (DataLock w)] @
        (if CallbackDelegate w \<noteq> NULL then [Call (CallbackDelegate w) (OnFrame ev)] else []) \<and>
      GameThread p' = GameThread p"
  by (simp add: HandleTrackingEvent_def SetFrame_def runtime_defs Let_def split: option.split)

text \<open>
  C4 as stated fails: a second tracking event that reports more hands than the first is
  copied into the same block, and nothing is allocated or released.
\<close>

theorem HandleTrackingEvent_never_grows:
  "(let p1 = HandleTrackingEvent 1000 frame1 started;
        p2 = HandleTrackingEvent 1000 frame2 p1
    in nHands frame1 < nHands frame2 \<and>
       LatestFrame (wrappers p1 1000) = Some (2, frame1) \<and>
       LatestFrame (wrappers p2 1000) = Some (2, frame2) \<and>
       heap p1 2 = Some Sizeof_LEAP_TRACKING_EVENT \<and>
       heap p2 = heap p1 \<and>
       trace p2 = trace p1 @ [Lock 1, Unlock 1, Call 500 (OnFrame frame2)])"
  by (simp add: started_eq blank_wrapper_def frame1_def frame2_def HandleTrackingEvent_def SetFrame_def
        runtime_defs Let_def)

subsection \<open>Opening the connection\<close>

text \<open>
  C5, as amended. \<^verbatim>\<open>OpenConnection\<close> always returns the address of its connection handle,
  and always, before it calls LeapC, stores the callback reference and registers the
  session as the current context. It sets the running flag and starts the message pump on
  a background thread exactly when the create call and the open call both report success;
  otherwise the running flag is left as it was.
\<close>

theorem OpenConnection_effects:
  "let (ptr, p') = OpenConnection this cb (rc, h) ro p
   in ptr = AddressOf_ConnectionHandle this \<and>
      LeapContextAtomic p' = this \<and>
      CallbackDelegate (wrappers p' this) = cb \<and>
      ConnectionHandle (wrappers p' this) = h \<and>
      bIsRunning (wrappers p' this) =
        (if rc = eLeapRS_Success \<and> ro = eLeapRS_Success then True else bIsRunning (wrappers p this)) \<and>
      trace p' = trace p @ [DelegateStore this cb, ContextStore this, LeapCreateConnection rc] @
        (if rc = eLeapRS_Success
         then [LeapOpenConnection h ro] @
              (if ro = eLeapRS_Success then [RunLambdaOnBackGroundThread this] else [])
         else [])"
  by (simp add: OpenConnection_def SetCallbackDelegate_def runtime_defs Let_def)

text \<open>
  C5 as stated fails: when the create call reports an error, the session is registered as
  the current context all the same (and the validity check accepts it), while the pump is
  not started.
\<close>

theorem OpenConnection_registers_context_on_failure:
  "(let (ptr, p') = OpenConnection 1000 500 (eLeapRS_UnknownError, NULL) eLeapRS_Success constructed
    in LeapContextAtomic constructed = NULL \<and>
       LeapContextAtomic p' = 1000 \<and>
       IsLeapContextValid 1000 p' \<and>
       \<not> bIsRunning (wrappers p' 1000) \<and>
       trace p' = trace constructed @
         [DelegateStore 1000 500, ContextStore 1000, LeapCreateConnection eLeapRS_UnknownError])"
  by (simp add: constructed_eq blank_wrapper_def OpenConnection_def SetCallbackDelegate_def
        IsLeapContextValid_def GetCallbackDelegate_def runtime_defs Let_def)

subsection \<open>Closing the connection\<close>



subsection \<open>The interpolation buffer\<close>

lemma FLeapWrapper_ctor_buffer_ok:
  "interpolation_buffer_ok this (FLeapWrapper_ctor this members p)"
  by (simp add: interpolation_buffer_ok_def FLeapWrapper_ctor_def runtime_defs Let_def)

text \<open>
  C6, as amended. In every call of \<^verbatim>\<open>GetInterpolatedFrameAtTime\<close>, when the reported size
  equals the recorded size nothing is allocated and the buffer returned is the old one; a
  second call with the same reported size allocates nothing, leaves the heap alone and
  returns the same buffer. As long as no allocation fails, the interpolation buffer stays
  as the constructor and every earlier call leave it (no buffer and size 0, or a live
  block of the recorded size), and the block returned is at least as large as the size
  just reported.
\<close>

theorem GetInterpolatedFrameAtTime_buffer:
  "let (buf, p') = GetInterpolatedFrameAtTime this t fs ok p;
       (buf', p'') = GetInterpolatedFrameAtTime this t' fs ok' p'
   in (fs = InterpolatedFrameSize (wrappers p this) \<longrightarrow>
         allocations p' = allocations p \<and> buf = InterpolatedFrame (wrappers p this)) \<and>
      allocations p'' = allocations p' \<and> buf' = buf \<and> heap p'' = heap p' \<and>
      (interpolation_buffer_ok this p \<and> (ok \<or> allocations p' = allocations p) \<longrightarrow>
         interpolation_buffer_ok this p' \<and> unat fs \<le> block_bytes p' buf)"
  by (auto simp: GetInterpolatedFrameAtTime_def interpolation_buffer_ok_def allocations_def
        block_bytes_def malloc_null_def runtime_defs Let_def word_gt_0)

theorem GetInterpolatedFrameAtTime_buffer_witness:
  "interpolation_buffer_ok 1000 constructed \<and>
   (let (buf, p') = GetInterpolatedFrameAtTime 1000 0 100 True constructed;
        (buf', p'') = GetInterpolatedFrameAtTime 1000 5 100 False p'
    in buf = 2 \<and> heap p' 2 = Some (Bytes 100) \<and> block_bytes p' buf = 100 \<and>
       interpolation_buffer_ok 1000 p' \<and>
       allocations p' = 2 \<and> allocations p'' = 2 \<and> buf' = 2) \<and>
   InterpolatedFrameSize (wrappers constructed 1000) = 0 \<and>
   (let (buf, p') = GetInterpolatedFrameAtTime 1000 0 0 False constructed
    in allocations p' = allocations constructed \<and> buf = NULL \<and>
       interpolation_buffer_ok 1000 p')"
proof -
  have ok: "interpolation_buffer_ok 1000 constructed"
    unfolding constructed_def by (rule FLeapWrapper_ctor_buffer_ok)
  have first: "GetInterpolatedFrameAtTime 1000 0 100 True constructed =
      (2, snd (GetInterpolatedFrameAtTime 1000 0 100 True constructed))"
    "heap (snd (GetInterpolatedFrameAtTime 1000 0 100 True constructed)) 2 = Some (Bytes 100)"
    "allocations (snd (GetInterpolatedFrameAtTime 1000 0 100 True constructed)) = 2"
    by (simp_all add: constructed_eq blank_wrapper_def GetInterpolatedFrameAtTime_def
          allocations_def runtime_defs Let_def)
  have zero: "InterpolatedFrameSize (wrappers constructed 1000) = 0"
    "InterpolatedFrame (wrappers constructed 1000) = NULL"
    by (simp_all add: constructed_eq blank_wrapper_def)
  have a: "let (buf, p') = GetInterpolatedFrameAtTime 1000 0 100 True constructed;
        (buf', p'') = GetInterpolatedFrameAtTime 1000 5 100 False p'
    in buf = 2 \<and> heap p' 2 = Some (Bytes 100) \<and> block_bytes p' buf = 100 \<and>
       interpolation_buffer_ok 1000 p' \<and>
       allocations p' = 2 \<and> allocations p'' = 2 \<and> buf' = 2"
    using ok GetInterpolatedFrameAtTime_buffer [of 1000 0 100 True constructed 5 False] first
    by (simp add: Let_def block_bytes_def split: prod.splits)
  have b: "let (buf, p') = GetInterpolatedFrameAtTime 1000 0 0 False constructed
    in allocations p' = allocations constructed \<and> buf = NULL \<and>
       interpolation_buffer_ok 1000 p'"
    using ok zero GetInterpolatedFrameAtTime_buffer [of 1000 0 0 False constructed 0 False]
    by (simp add: Let_def split: prod.splits)
  show ?thesis using ok zero(1) a b by simp
qed

text \<open>
  C6 as stated fails: when the service reports \<open>2 ^ 62\<close> bytes and the allocation fails,
  the size is recorded all the same and the null pointer is returned, a buffer smaller
  than the size just reported; a second call with the same size allocates nothing and
  returns the null pointer again.
\<close>

theorem GetInterpolatedFrameAtTime_null_after_failed_allocation:
  "(let (buf, p') = GetInterpolatedFrameAtTime 1000 0 (2 ^ 62) False started;
        (buf', p'') = GetInterpolatedFrameAtTime 1000 1 (2 ^ 62) True p'
    in buf = NULL \<and>
       InterpolatedFrameSize (wrappers p' 1000) = 2 ^ 62 \<and>
       block_bytes p' buf < unat (2 ^ 62 :: 64 word) \<and>
       trace p' = trace started @
         [LeapGetFrameSize 40 0, Malloc NULL (Bytes 4611686018427387904),
          LeapInterpolateFrame 40 0 NULL (2 ^ 62)] \<and>
       buf' = NULL \<and>
       allocations p'' = allocations p' \<and>
       trace p'' = trace p' @ [LeapGetFrameSize 40 1, LeapInterpolateFrame 40 1 NULL (2 ^ 62)])"
  by (simp add: started_eq blank_wrapper_def GetInterpolatedFrameAtTime_def allocations_def
        block_bytes_def malloc_null_def runtime_defs Let_def)

subsection \<open>The image stream\<close>

text \<open>
  When the buffer length that \<^verbatim>\<open>EnableImageStream\<close> reads (the field of the existing
  description, or what the newly allocated struct happens to hold) compares equal to its
  copy in the \<^verbatim>\<open>int\<close>, the image buffer is not allocated: the first call allocates the
  description with \<^verbatim>\<open>pBuffer\<close> null, a call on an existing description changes nothing,
  and so does every call after.
\<close>

lemma EnableImageStream_no_buffer_when_copy_equal:
  assumes "(case ImageDescription (wrappers p this) of
              None \<Rightarrow> scast (ucast (buffer_len fresh) :: 32 word) = buffer_len fresh
            | Some (a, d) \<Rightarrow> scast (ucast (buffer_len d) :: 32 word) = buffer_len d)"
  shows "let p1 = EnableImageStream this bEnable fresh p
         in (case ImageDescription (wrappers p this) of
               None \<Rightarrow>
                 ImageDescription (wrappers p1 this) = Some (last_addr p + 1, fresh\<lparr>pBuffer := NULL\<rparr>) \<and>
                 trace p1 = trace p @ [Malloc (last_addr p + 1) Sizeof_LEAP_IMAGE_FRAME_DESCRIPTION]
             | Some (a, d) \<Rightarrow> p1 = p) \<and>
            EnableImageStream this bEnable' fresh' p1 = p1"
  using assms
  by (auto simp: EnableImageStream_def runtime_defs Let_def split: option.splits)

text \<open>
  C10. The claim asks that \<^verbatim>\<open>EnableImageStream\<close> never allocates the image buffer, the guard
  comparing the length with a copy of itself. The source's comment reads "if the size is
  different realloc the buffer", but the copy is an \<^verbatim>\<open>int\<close> of a \<^verbatim>\<open>uint64_t\<close> that \<^verbatim>\<open>new\<close>
  left uninitialised. When the new struct happens to hold the length \<open>2 ^ 31\<close>, the copy is
  negative and compares unequal: the first call allocates a buffer of that many bytes, and
  the next call, with the length unchanged, releases it and allocates another.
\<close>

theorem EnableImageStream_allocates_on_wide_length:
  "(let p1 = EnableImageStream 1000 True \<lparr>buffer_len = 2 ^ 31, pBuffer = 55\<rparr> constructed;
        p2 = EnableImageStream 1000 True \<lparr>buffer_len = 0, pBuffer = NULL\<rparr> p1
    in ImageDescription (wrappers p1 1000) = Some (2, \<lparr>buffer_len = 2 ^ 31, pBuffer = 3\<rparr>) \<and>
       trace p1 = trace constructed @
         [Malloc 2 Sizeof_LEAP_IMAGE_FRAME_DESCRIPTION, Malloc 3 (Bytes 2147483648)] \<and>
       ImageDescription (wrappers p2 1000) = Some (2, \<lparr>buffer_len = 2 ^ 31, pBuffer = 4\<rparr>) \<and>
       trace p2 = trace p1 @ [Free 3, Malloc 4 (Bytes 2147483648)])"
  by (simp add: constructed_eq blank_wrapper_def EnableImageStream_def runtime_defs Let_def)

subsection \<open>The message pump\<close>

lemma running_emit: "bIsRunning (wrappers (emit e p) t) = bIsRunning (wrappers p t)"
  by (simp add: emit_def)

lemma running_free: "bIsRunning (wrappers (free a p) t) = bIsRunning (wrappers p t)"
  by (simp add: free_def emit_def)

lemma running_malloc: "bIsRunning (wrappers (snd (malloc n p)) t) = bIsRunning (wrappers p t)"
  by (simp add: malloc_def emit_def Let_def)

lemma running_schedule:
  "bIsRunning (wrappers (RunShortLambdaOnGameThread_call k p) t) = bIsRunning (wrappers p t)"
  by (simp add: RunShortLambdaOnGameThread_call_def emit_def)

lemma running_query:
  "bIsRunning (wrappers (snd (snd (LeapGetDeviceInfo_call h i reply p))) t) = bIsRunning (wrappers p t)"
  by (simp add: LeapGetDeviceInfo_call_def emit_def split: prod.split)

lemmas running_simps = running_emit running_free running_malloc running_schedule running_query

lemma running_CleanupLastDevice:
  "bIsRunning (wrappers (CleanupLastDevice this p) this) = bIsRunning (wrappers p this)"
  by (simp add: CleanupLastDevice_def modify_def running_simps Let_def split: option.split)

lemma running_SetDevice:
  "bIsRunning (wrappers (SetDevice this d p) this) = bIsRunning (wrappers p this)"
  by (simp add: SetDevice_def modify_def running_simps Let_def case_prod_beta split: option.split)

lemma running_SetFrame:
  "bIsRunning (wrappers (SetFrame this f p) this) = bIsRunning (wrappers p this)"
  by (simp add: SetFrame_def modify_def running_simps Let_def case_prod_beta split: option.split)

lemma running_deliver:
  "bIsRunning (wrappers (HandleDeviceEvent_deliver this d p) this) = bIsRunning (wrappers p this)"
  by (simp add: HandleDeviceEvent_deliver_def running_simps running_SetDevice Let_def)

lemma running_HandleDeviceEvent:
  "bIsRunning (wrappers (HandleDeviceEvent this ev opened first second p) this) =
   bIsRunning (wrappers p this)"
  by (simp add: HandleDeviceEvent_def running_simps running_deliver modify_def Let_def case_prod_beta)

lemma dispatch_keeps_running:
  "bIsRunning (wrappers (dispatch this r p) this) = bIsRunning (wrappers p this)"
  by (cases "Msg r")
     (simp_all add: dispatch_def running_HandleDeviceEvent running_CleanupLastDevice running_SetFrame
        running_simps modify_def Let_def
        HandleConnectionEvent_def HandleConnectionLostEvent_def HandleDeviceLostEvent_def
        HandleDeviceFailureEvent_def HandleTrackingEvent_def HandleImageEvent_def
        HandleLogEvent_def HandlePolicyEvent_def HandleTrackingModeEvent_def
        HandleConfigChangeEvent_def HandleConfigResponseEvent_def)

lemma pump_loop_keeps_polling:
  assumes "bIsRunning (wrappers p this)" and "\<forall>r\<in>set rs. \<not> stop_requested r"
  shows "pump_loop this H T rs p = Polling (pump_state (pump_loop this H T rs p)) \<and>
         bIsRunning (wrappers (pump_state (pump_loop this H T rs p)) this)"
  using assms
proof (induction rs arbitrary: p)
  case Nil
  then show ?case by simp
next
  case (Cons r rs)
  let ?p1 = "emit (LeapPollConnection H T (Result r)) p"
  have run1: "bIsRunning (wrappers ?p1 this)"
    using Cons.prems(1) by (simp add: emit_def)
  have nostop: "\<not> stop_requested r" "\<forall>r\<in>set rs. \<not> stop_requested r"
    using Cons.prems(2) by simp_all
  show ?case
  proof (cases "Result r = eLeapRS_Success")
    case True
    have "bIsRunning (wrappers (dispatch this r ?p1) this)"
      using run1 by (simp add: dispatch_keeps_running)
    from Cons.IH [OF this nostop(2)] show ?thesis
      using Cons.prems(1) run1 nostop(1) True by (simp add: Let_def)
  next
    case False
    show ?thesis
    proof (cases "bIsConnected (wrappers ?p1 this)")
      case True
      from Cons.IH [OF run1 nostop(2)] show ?thesis
        using Cons.prems(1) run1 nostop(1) False True by (simp add: Let_def)
    next
      case nc: False
      have "bIsRunning (wrappers (emit (Sleep 100) ?p1) this)"
        using run1 by (simp add: emit_def)
      from Cons.IH [OF this nostop(2)] show ?thesis
        using Cons.prems(1) run1 nostop(1) False nc by (simp add: Let_def)
    qed
  qed
qed

lemma pump_loop_append:
  assumes "bIsRunning (wrappers p this)" and "\<forall>r\<in>set rs. \<not> stop_requested r"
  shows "pump_loop this H T (rs @ later) p =
         pump_loop this H T later (pump_state (pump_loop this H T rs p))"
  using assms
proof (induction rs arbitrary: p)
  case Nil
  then show ?case by simp
next
  case (Cons r rs)
  let ?p1 = "emit (LeapPollConnection H T (Result r)) p"
  have run1: "bIsRunning (wrappers ?p1 this)"
    using Cons.prems(1) by (simp add: emit_def)
  have nostop: "\<not> stop_requested r" "\<forall>r\<in>set rs. \<not> stop_requested r"
    using Cons.prems(2) by simp_all
  show ?case
  proof (cases "Result r = eLeapRS_Success")
    case True
    have "bIsRunning (wrappers (dispatch this r ?p1) this)"
      using run1 by (simp add: dispatch_keeps_running)
    from Cons.IH [OF this nostop(2)] show ?thesis
      using Cons.prems(1) run1 nostop(1) True by (simp add: Let_def)
  next
    case False
    show ?thesis
    proof (cases "bIsConnected (wrappers ?p1 this)")
      case True
      from Cons.IH [OF run1 nostop(2)] show ?thesis
        using Cons.prems(1) run1 nostop(1) False True by (simp add: Let_def)
    next
      case nc: False
      have "bIsRunning (wrappers (emit (Sleep 100) ?p1) this)"
        using run1 by (simp add: emit_def)
      from Cons.IH [OF this nostop(2)] show ?thesis
        using Cons.prems(1) run1 nostop(1) False nc by (simp add: Let_def)
    qed
  qed
qed

text \<open>
  C8. Let the pump run on any poll returns during which no stop is requested, whatever
  their result codes and messages: it has not left the loop, it is blocked in the next
  poll. If the running flag is cleared while that next poll is blocked, the pump leaves the
  loop right after the poll returns, in the state it had before the poll with nothing but
  the poll recorded and the flag cleared: the message just polled is not dispatched, and
  whatever would have come later is not polled.
\<close>

theorem ServiceMessageLoop_stops_only_on_request:
  assumes "bIsRunning (wrappers p this)"
    and "\<forall>r\<in>set rs. \<not> stop_requested r"
    and "stop_requested r"
  shows "ServiceMessageLoop this rs p = Polling (pump_state (ServiceMessageLoop this rs p)) \<and>
         ServiceMessageLoop this (rs @ r # rest) p =
           Exited (modify this (\<lambda>w. w\<lparr>bIsRunning := False\<rparr>)
                    (emit (LeapPollConnection (ConnectionHandle (wrappers p this)) 200 (Result r))
                       (pump_state (ServiceMessageLoop this rs p))))"
proof -
  let ?H = "ConnectionHandle (wrappers p this)"
  let ?q = "pump_state (pump_loop this ?H 200 rs p)"
  have keep: "pump_loop this ?H 200 rs p = Polling ?q" "bIsRunning (wrappers ?q this)"
    using pump_loop_keeps_polling [OF assms(1,2)] by simp_all
  have "pump_loop this ?H 200 (rs @ r # rest) p = pump_loop this ?H 200 (r # rest) ?q"
    by (rule pump_loop_append [OF assms(1,2)])
  also have "\<dots> = Exited (modify this (\<lambda>w. w\<lparr>bIsRunning := False\<rparr>)
                        (emit (LeapPollConnection ?H 200 (Result r)) ?q))"
    using keep(2) assms(3) by (simp add: Let_def modify_def)
  finally show ?thesis
    using keep(1) by (simp add: ServiceMessageLoop_def Let_def)
qed


theorem ServiceMessageLoop_stops_witness:
  "bIsRunning (wrappers started 1000) \<and>
   \<not> stop_requested poll_tracking \<and> \<not> stop_requested poll_timeout \<and>
   stop_requested poll_stopped \<and>
   ServiceMessageLoop 1000 [poll_tracking, poll_timeout] started =
     Polling (pump_state (ServiceMessageLoop 1000 [poll_tracking, poll_timeout] started)) \<and>
   ServiceMessageLoop 1000 [poll_tracking, poll_timeout, poll_stopped, poll_tracking] started =
     Exited (pump_state
       (ServiceMessageLoop 1000 [poll_tracking, poll_timeout, poll_stopped, poll_tracking] started)) \<and>
   trace (pump_state
       (ServiceMessageLoop 1000 [poll_tracking, poll_timeout, poll_stopped, poll_tracking] started)) =
     trace started @
     [LeapPollConnection 40 200 eLeapRS_Success, Lock 1, Malloc 2 Sizeof_LEAP_TRACKING_EVENT,
      Unlock 1, Call 500 (OnFrame frame1), LeapPollConnection 40 200 eLeapRS_Timeout, Sleep 100,
      LeapPollConnection 40 200 eLeapRS_Success]"
proof -
  have run: "bIsRunning (wrappers started 1000)"
    by (simp add: started_eq blank_wrapper_def)
  have quiet: "\<forall>r\<in>set [poll_tracking, poll_timeout]. \<not> stop_requested r"
    by (simp add: poll_tracking_def poll_timeout_def)
  have stop: "stop_requested poll_stopped"
    by (simp add: poll_stopped_def)
  have st: "trace (pump_state (ServiceMessageLoop 1000 [poll_tracking, poll_timeout] started)) =
     trace started @
     [LeapPollConnection 40 200 eLeapRS_Success, Lock 1, Malloc 2 Sizeof_LEAP_TRACKING_EVENT,
      Unlock 1, Call 500 (OnFrame frame1), LeapPollConnection 40 200 eLeapRS_Timeout, Sleep 100]"
    by (simp add: ServiceMessageLoop_def started_eq blank_wrapper_def poll_tracking_def
          poll_timeout_def dispatch_def HandleTrackingEvent_def SetFrame_def runtime_defs Let_def)
  show ?thesis
    using ServiceMessageLoop_stops_only_on_request [OF run quiet stop, of "[poll_tracking]"]
      run quiet stop st
    by (simp add: poll_stopped_def started_eq blank_wrapper_def runtime_defs)
qed

subsection \<open>The validity guard\<close>

text \<open>
  C9. The validity check answers true for a session exactly when the global context
  pointer holds that session and the session's callback reference is not null.
\<close>

theorem IsLeapContextValid_iff:
  "IsLeapContextValid session p \<longleftrightarrow>
     LeapContextAtomic p = session \<and> CallbackDelegate (wrappers p session) \<noteq> NULL"
  by (auto simp: IsLeapContextValid_def GetCallbackDelegate_def Let_def)

end
